theory Spec2Isabelle
  imports Complex_Main "HOL-Library.Word"
begin

section \<open>ThinkNet: the real-time layer of \<^verbatim>\<open>thinknet-backend.cjs\<close>\<close>

text \<open>
  The backend keeps three pieces of state: the MongoDB collection of mind maps, the
  socket.io rooms, and the process-wide table \<^verbatim>\<open>activeUsers\<close> (a JavaScript
  \<^verbatim>\<open>Map\<close> from mind-map id to a \<^verbatim>\<open>Set\<close> of \<^verbatim>\<open>{id, username}\<close> objects).
  Every handler is modelled as one atomic step on that state. What a handler sends is
  appended to the outbox of each receiving socket, so that "who received what, and how
  often" can be read off the state.
\<close>

subsection \<open>Documents\<close>

type_synonym number = real

text \<open>\<^verbatim>\<open>NodeSchema\<close>. The fields \<^verbatim>\<open>id\<close> and \<^verbatim>\<open>text\<close> carry a prefix here.\<close>

record node =
  n_id :: string
  n_x :: number
  n_y :: number
  n_text :: string
  n_level :: number
  n_color :: string
  n_createdBy :: string
  n_createdAt :: nat
  n_updatedAt :: nat

text \<open>\<^verbatim>\<open>LinkSchema\<close>.\<close>

record link =
  source :: string
  target :: string

text \<open>
  A string that the code trims is kept as JavaScript has it, a sequence of UTF-16 code
  units.
\<close>

type_synonym jsstring = "16 word list"

text \<open>
  \<^verbatim>\<open>String.prototype.trim\<close> removes the code units of ECMAScript's WhiteSpace and
  LineTerminator productions from both ends.
\<close>

definition is_white_space :: "16 word \<Rightarrow> bool" where
  "is_white_space c \<longleftrightarrow>
     c \<in> set [0x9, 0xA, 0xB, 0xC, 0xD, 0x20, 0xA0, 0x1680, 0x2028, 0x2029, 0x202F,
              0x205F, 0x3000, 0xFEFF]
     \<or> (0x2000 \<le> c \<and> c \<le> 0x200A)"

definition trim :: "jsstring \<Rightarrow> jsstring" where
  "trim t = rev (dropWhile is_white_space (rev (dropWhile is_white_space t)))"

text \<open>\<^verbatim>\<open>CommentSchema\<close>; the route trims the text of a comment.\<close>

record comment =
  c_id :: string
  c_text :: jsstring
  c_author :: string
  c_authorId :: string
  c_timestamp :: nat

text \<open>The schema's enum \<^verbatim>\<open>["read", "write", "admin"]\<close>.\<close>

datatype permission = Read | Write | Admin

record collaborator =
  user :: string
  permission :: permission

text \<open>
  \<^verbatim>\<open>MindMapSchema\<close>; \<^verbatim>\<open>comments\<close> is a Map from node id to a comment array. The
  schema trims \<^verbatim>\<open>title\<close> and each of \<^verbatim>\<open>tags\<close> when they are set, so these two are
  kept as code units as well.
\<close>

record mindmap =
  title :: jsstring
  description :: string
  nodes :: "node list"
  links :: "link list"
  comments :: "string \<rightharpoonup> comment list"
  owner :: string
  collaborators :: "collaborator list"
  isPublic :: bool
  tags :: "jsstring list"
  createdAt :: nat
  updatedAt :: nat
  lastModifiedBy :: "string option"

text \<open>
  The \<^verbatim>\<open>updates\<close> object of a \<^verbatim>\<open>node_update\<close> event: any subset of the paths of
  \<^verbatim>\<open>NodeSchema\<close>. \<^verbatim>\<open>Object.assign\<close> copies each key that is present.
\<close>

record node_updates =
  u_id :: "string option"
  u_x :: "number option"
  u_y :: "number option"
  u_text :: "string option"
  u_level :: "number option"
  u_color :: "string option"
  u_createdBy :: "string option"
  u_createdAt :: "nat option"
  u_updatedAt :: "nat option"

definition assign_opt :: "'a \<Rightarrow> 'a option \<Rightarrow> 'a" where
  "assign_opt old new = (case new of None \<Rightarrow> old | Some v \<Rightarrow> v)"

text \<open>\<^verbatim>\<open>Object.assign(mindmap.nodes[nodeIndex], updates)\<close>.\<close>

definition object_assign :: "node \<Rightarrow> node_updates \<Rightarrow> node" where
  "object_assign n u =
     \<lparr> n_id = assign_opt (n_id n) (u_id u),
       n_x = assign_opt (n_x n) (u_x u),
       n_y = assign_opt (n_y n) (u_y u),
       n_text = assign_opt (n_text n) (u_text u),
       n_level = assign_opt (n_level n) (u_level u),
       n_color = assign_opt (n_color n) (u_color u),
       n_createdBy = assign_opt (n_createdBy n) (u_createdBy u),
       n_createdAt = assign_opt (n_createdAt n) (u_createdAt u),
       n_updatedAt = assign_opt (n_updatedAt n) (u_updatedAt u) \<rparr>"

text \<open>\<^verbatim>\<open>Array.prototype.findIndex\<close>; \<open>None\<close> stands for \<^verbatim>\<open>-1\<close>.\<close>

fun findIndex :: "('a \<Rightarrow> bool) \<Rightarrow> 'a list \<Rightarrow> nat option" where
  "findIndex P [] = None"
| "findIndex P (x # xs) =
     (if P x then Some 0 else map_option Suc (findIndex P xs))"

subsection \<open>Sessions, rooms and events\<close>

type_synonym sid = string

text \<open>What \<^verbatim>\<open>socketAuth\<close> and \<^verbatim>\<open>join_mindmap\<close> store on the socket object.\<close>

record socket =
  userId :: string
  username :: string
  currentMindmap :: "string option"

text \<open>The object literal \<^verbatim>\<open>{id: socket.userId, username: socket.username}\<close>.\<close>

record active_user =
  au_id :: string
  au_username :: string

record node_update_data =
  nodeId :: string
  updates :: node_updates

record cursor_data =
  cur_x :: number
  cur_y :: number

text \<open>Engine-to-client events, by their wire names.\<close>

datatype event =
    Error string
  | Active_users "active_user list"
  | User_joined active_user
  | User_left active_user
  | Node_updated string node_updates string
  | Cursor_moved string string number number
  | Comment_added string comment
  | Mindmap_updated mindmap

text \<open>
  A JavaScript \<^verbatim>\<open>Set\<close> holding objects compares them by identity. Each object is
  therefore stored with its reference; evaluating an object literal allocates a
  reference that no existing object has (\<open>next_ref\<close>).
\<close>

type_synonym ref = nat

type_synonym 'a object_set = "(ref \<times> 'a) list"

definition set_add :: "ref \<times> 'a \<Rightarrow> 'a object_set \<Rightarrow> 'a object_set" where
  "set_add obj s = (if list_ex (\<lambda>old. fst old = fst obj) s then s else s @ [obj])"

definition set_delete :: "ref \<Rightarrow> 'a object_set \<Rightarrow> 'a object_set" where
  "set_delete r s = filter (\<lambda>obj. fst obj \<noteq> r) s"

definition array_from :: "'a object_set \<Rightarrow> 'a list" where
  "array_from s = map snd s"

text \<open>
  The environment of one handler run: the clock (\<^verbatim>\<open>Date.now()\<close>), whether the
  lookup (\<^verbatim>\<open>findById\<close>) throws, whether Mongoose refuses the write (a failed
  validation or cast, a lost connection), and whether a \<^verbatim>\<open>populate\<close> that follows a
  write throws. A handler's \<^verbatim>\<open>catch\<close> treats all of these alike.
\<close>

record env =
  now :: nat
  find_throws :: bool
  save_throws :: bool
  populate_throws :: bool

record state =
  db :: "string \<rightharpoonup> mindmap"
  writes :: "(string \<times> mindmap) list"
  sockets :: "sid \<rightharpoonup> socket"
  rooms :: "string \<Rightarrow> sid set"
  activeUsers :: "string \<rightharpoonup> active_user object_set"
  next_ref :: ref
  outbox :: "sid \<Rightarrow> event list"

definition init_state :: state where
  "init_state =
     \<lparr> db = Map.empty, writes = [], sockets = Map.empty, rooms = (\<lambda>_. {}),
       activeUsers = Map.empty, next_ref = 0, outbox = (\<lambda>_. []) \<rparr>"

text \<open>The room name \<^verbatim>\<open>`mindmap:${mindmapId}`\<close>.\<close>

definition room_of :: "string \<Rightarrow> string" where
  "room_of mindmapId = ''mindmap:'' @ mindmapId"

text \<open>\<^verbatim>\<open>socket.emit\<close>: to this socket only.\<close>

definition socket_emit :: "sid \<Rightarrow> event \<Rightarrow> state \<Rightarrow> state" where
  "socket_emit s ev st = st\<lparr>outbox := (outbox st)(s := outbox st s @ [ev])\<rparr>"

text \<open>\<^verbatim>\<open>socket.to(room).emit\<close>: to every socket of the room but the sender.\<close>

definition socket_to_emit :: "sid \<Rightarrow> string \<Rightarrow> event \<Rightarrow> state \<Rightarrow> state" where
  "socket_to_emit s room ev st =
     st\<lparr>outbox := (\<lambda>t. if t \<in> rooms st room \<and> t \<noteq> s then outbox st t @ [ev] else outbox st t)\<rparr>"

text \<open>\<^verbatim>\<open>io.to(room).emit\<close>: to every socket of the room.\<close>

definition io_to_emit :: "string \<Rightarrow> event \<Rightarrow> state \<Rightarrow> state" where
  "io_to_emit room ev st =
     st\<lparr>outbox := (\<lambda>t. if t \<in> rooms st room then outbox st t @ [ev] else outbox st t)\<rparr>"

definition socket_join :: "sid \<Rightarrow> string \<Rightarrow> state \<Rightarrow> state" where
  "socket_join s room st = st\<lparr>rooms := (rooms st)(room := insert s (rooms st room))\<rparr>"

text \<open>\<^verbatim>\<open>mindmap.save()\<close>, once it resolves; \<open>writes\<close> logs every durable write.\<close>

definition save :: "string \<Rightarrow> mindmap \<Rightarrow> state \<Rightarrow> state" where
  "save mid m st = st\<lparr>db := (db st)(mid \<mapsto> m), writes := writes st @ [(mid, m)]\<rparr>"

text \<open>The three access tests the handlers spell out inline.\<close>

definition hasAccess :: "mindmap \<Rightarrow> string \<Rightarrow> bool" where
  "hasAccess m uid \<longleftrightarrow>
     owner m = uid \<or> list_ex (\<lambda>c. user c = uid) (collaborators m) \<or> isPublic m"

definition canEdit :: "mindmap \<Rightarrow> string \<Rightarrow> bool" where
  "canEdit m uid \<longleftrightarrow>
     owner m = uid \<or>
     list_ex (\<lambda>c. user c = uid \<and> permission c \<in> set [Write, Admin]) (collaborators m)"

subsection \<open>Socket handlers\<close>

text \<open>A connection that passed \<^verbatim>\<open>socketAuth\<close>: the token's identity is on the socket.\<close>

definition connect :: "sid \<Rightarrow> string \<Rightarrow> string \<Rightarrow> state \<Rightarrow> state" where
  "connect s uid uname st =
     st\<lparr>sockets := (sockets st)(s \<mapsto> \<lparr>userId = uid, username = uname, currentMindmap = None\<rparr>)\<rparr>"

text \<open>The \<^verbatim>\<open>join_mindmap\<close> handler.\<close>

definition join_mindmap :: "env \<Rightarrow> sid \<Rightarrow> string \<Rightarrow> state \<Rightarrow> state" where
  "join_mindmap e s mindmapId st =
     (case sockets st s of
        None \<Rightarrow> st
      | Some sock \<Rightarrow>
          if find_throws e then socket_emit s (Error ''Server error'') st
          else (case db st mindmapId of
            None \<Rightarrow> socket_emit s (Error ''Mind map not found'') st
          | Some mindmap \<Rightarrow>
              if \<not> hasAccess mindmap (userId sock)
              then socket_emit s (Error ''Access denied'') st
              else
                let me = \<lparr>au_id = userId sock, au_username = username sock\<rparr>;
                    st1 = socket_join s (room_of mindmapId) st;
                    st2 = st1\<lparr>sockets := (sockets st1)(s \<mapsto> sock\<lparr>currentMindmap := Some mindmapId\<rparr>)\<rparr>;
                    st3 = (case activeUsers st2 mindmapId of
                             None \<Rightarrow> st2\<lparr>activeUsers := (activeUsers st2)(mindmapId \<mapsto> [])\<rparr>
                           | Some _ \<Rightarrow> st2);
                    obj = (next_ref st3, me);
                    st4 = st3\<lparr>next_ref := Suc (next_ref st3)\<rparr>;
                    st5 = st4\<lparr>activeUsers :=
                             (activeUsers st4)(mindmapId \<mapsto>
                                set_add obj (case activeUsers st4 mindmapId of
                                               None \<Rightarrow> [] | Some us \<Rightarrow> us))\<rparr>;
                    st6 = socket_to_emit s (room_of mindmapId) (User_joined me) st5;
                    users = array_from (case activeUsers st6 mindmapId of
                                          None \<Rightarrow> [] | Some us \<Rightarrow> us)
                in socket_emit s (Active_users users) st6))"

text \<open>
  The \<^verbatim>\<open>node_update\<close> handler. \<^verbatim>\<open>!socket.currentMindmap\<close> holds for
  \<^verbatim>\<open>undefined\<close> and for the empty string. Every refusal of the write, that of a
  merged node which fails validation among them, is \<open>save_throws\<close> here.
\<close>

definition node_update :: "env \<Rightarrow> sid \<Rightarrow> node_update_data \<Rightarrow> state \<Rightarrow> state" where
  "node_update e s data st =
     (case sockets st s of
        None \<Rightarrow> st
      | Some sock \<Rightarrow>
          (case currentMindmap sock of
             None \<Rightarrow> st
           | Some cm \<Rightarrow>
               if cm = [] then st
               else
                 let st1 = socket_to_emit s (room_of cm)
                             (Node_updated (nodeId data) (updates data) (username sock)) st
                 in if find_throws e then st1
                    else (case db st1 cm of
                      None \<Rightarrow> st1
                    | Some mindmap \<Rightarrow>
                        (case findIndex (\<lambda>n. n_id n = nodeId data) (nodes mindmap) of
                           None \<Rightarrow> st1
                         | Some nodeIndex \<Rightarrow>
                             let mindmap' = mindmap
                                   \<lparr>nodes := (nodes mindmap)
                                      [nodeIndex := object_assign (nodes mindmap ! nodeIndex) (updates data)],
                                    updatedAt := now e,
                                    lastModifiedBy := Some (userId sock)\<rparr>
                             in if save_throws e then st1 else save cm mindmap' st1))))"

text \<open>The \<^verbatim>\<open>cursor_move\<close> handler.\<close>

definition cursor_move :: "sid \<Rightarrow> cursor_data \<Rightarrow> state \<Rightarrow> state" where
  "cursor_move s data st =
     (case sockets st s of
        None \<Rightarrow> st
      | Some sock \<Rightarrow>
          (case currentMindmap sock of
             None \<Rightarrow> st
           | Some cm \<Rightarrow>
               if cm = [] then st
               else socket_to_emit s (room_of cm)
                      (Cursor_moved (userId sock) (username sock) (cur_x data) (cur_y data)) st))"

text \<open>
  The \<^verbatim>\<open>disconnect\<close> handler. socket.io has already taken the socket out of all its
  rooms when the handler runs. The argument of \<^verbatim>\<open>mindmapUsers.delete\<close> is a new
  object literal, so it has a new reference.
\<close>

definition disconnect :: "sid \<Rightarrow> state \<Rightarrow> state" where
  "disconnect s st =
     (case sockets st s of
        None \<Rightarrow> st
      | Some sock \<Rightarrow>
          let st0 = st\<lparr>sockets := (sockets st)(s := None), rooms := (\<lambda>r. rooms st r - {s})\<rparr>
          in (case currentMindmap sock of
                None \<Rightarrow> st0
              | Some cm \<Rightarrow>
                  if cm = [] then st0
                  else (case activeUsers st0 cm of
                    None \<Rightarrow> st0
                  | Some mindmapUsers \<Rightarrow>
                      let me = \<lparr>au_id = userId sock, au_username = username sock\<rparr>;
                          r = next_ref st0;
                          st1 = st0\<lparr>next_ref := Suc r\<rparr>;
                          mindmapUsers' = set_delete r mindmapUsers;
                          st2 = st1\<lparr>activeUsers := (activeUsers st1)(cm \<mapsto> mindmapUsers')\<rparr>
                      in if length mindmapUsers' = 0
                         then st2\<lparr>activeUsers := (activeUsers st2)(cm := None)\<rparr>
                         else socket_to_emit s (room_of cm) (User_left me) st2)))"

subsection \<open>Request handlers\<close>

text \<open>\<^verbatim>\<open>req.user\<close>, the identity \<^verbatim>\<open>authenticateToken\<close> took from the token.\<close>

record req_user =
  ru_id :: string
  ru_username :: string

datatype body =
    Err string
  | Mindmap_body mindmap
  | Comment_body comment
  | Collaborators_body "collaborator list"
  | Message string

type_synonym response = "nat \<times> body"

text \<open>A node as a request carries it; the audit fields may be missing.\<close>

record node_in =
  in_id :: string
  in_x :: number
  in_y :: number
  in_text :: string
  in_level :: number
  in_color :: string
  in_createdBy :: "string option"
  in_createdAt :: "nat option"

text \<open>The body of \<^verbatim>\<open>PUT /api/mindmaps/:id\<close> as it is sent; a missing key is \<open>None\<close>.\<close>

record put_body =
  b_title :: "jsstring option"
  b_description :: "string option"
  b_nodes :: "node_in list option"
  b_links :: "link list option"
  b_isPublic :: "bool option"
  b_tags :: "jsstring list option"

text \<open>
  The function mapped over \<^verbatim>\<open>nodes\<close> in the PUT handler. \<^verbatim>\<open>node.createdBy ||\<close>
  falls through on a missing and on an empty string, \<^verbatim>\<open>node.createdAt ||\<close> on a missing
  time and on \<^verbatim>\<open>0\<close>.
\<close>

definition process_node :: "env \<Rightarrow> req_user \<Rightarrow> node_in \<Rightarrow> node" where
  "process_node e u n =
     \<lparr> n_id = in_id n, n_x = in_x n, n_y = in_y n, n_text = in_text n,
       n_level = in_level n, n_color = in_color n,
       n_createdBy = (case in_createdBy n of
                        None \<Rightarrow> ru_username u
                      | Some c \<Rightarrow> if c = [] then ru_username u else c),
       n_createdAt = (case in_createdAt n of
                        None \<Rightarrow> now e
                      | Some t \<Rightarrow> if t = 0 then now e else t),
       n_updatedAt = now e \<rparr>"

text \<open>
  The schemas mark these strings as \<^verbatim>\<open>required\<close>, which an empty string does not
  meet: the title of a mind map, of a node its id, text, color and creator, of a link
  its two ends. \<^verbatim>\<open>save\<close> rejects a document that fails.
\<close>

definition valid_node :: "node \<Rightarrow> bool" where
  "valid_node n \<longleftrightarrow> n_id n \<noteq> [] \<and> n_text n \<noteq> [] \<and> n_color n \<noteq> [] \<and> n_createdBy n \<noteq> []"

definition valid_link :: "link \<Rightarrow> bool" where
  "valid_link l \<longleftrightarrow> source l \<noteq> [] \<and> target l \<noteq> []"

definition validates :: "mindmap \<Rightarrow> bool" where
  "validates m \<longleftrightarrow>
     title m \<noteq> [] \<and> list_all valid_node (nodes m) \<and> list_all valid_link (links m)"

text \<open>
  The assignments of the PUT handler, from the body to the document that was looked
  up. Setting the title trims it, and so does setting the tags.
\<close>

definition apply_body :: "env \<Rightarrow> req_user \<Rightarrow> put_body \<Rightarrow> mindmap \<Rightarrow> mindmap" where
  "apply_body e u b mindmap =
     (let m1 = (case b_title b of
                  None \<Rightarrow> mindmap
                | Some t \<Rightarrow> if t = [] then mindmap else mindmap\<lparr>title := trim t\<rparr>);
          m2 = (case b_description b of
                  None \<Rightarrow> m1 | Some d \<Rightarrow> m1\<lparr>description := d\<rparr>);
          m3 = (case b_nodes b of
                  None \<Rightarrow> m2
                | Some ns \<Rightarrow> m2\<lparr>nodes := map (process_node e u) ns\<rparr>);
          m4 = (case b_links b of None \<Rightarrow> m3 | Some ls \<Rightarrow> m3\<lparr>links := ls\<rparr>);
          m5 = (case b_isPublic b of None \<Rightarrow> m4 | Some p \<Rightarrow> m4\<lparr>isPublic := p\<rparr>);
          m6 = (case b_tags b of
                  None \<Rightarrow> m5 | Some ts \<Rightarrow> m5\<lparr>tags := map trim ts\<rparr>)
      in m6\<lparr>updatedAt := now e, lastModifiedBy := Some (ru_id u)\<rparr>)"

text \<open>
  \<^verbatim>\<open>app.put("/api/mindmaps/:id", ...)\<close>. The two \<^verbatim>\<open>populate\<close> calls come after the
  save: when they throw, the answer is 500, the document is already stored and nothing
  is sent to the room.
\<close>

definition put_mindmap ::
  "env \<Rightarrow> req_user \<Rightarrow> string \<Rightarrow> put_body \<Rightarrow> state \<Rightarrow> response \<times> state" where
  "put_mindmap e u mid b st =
     (if find_throws e then ((500, Err ''Server error''), st)
      else (case db st mid of
        None \<Rightarrow> ((404, Err ''Mind map not found''), st)
      | Some mindmap \<Rightarrow>
          if \<not> canEdit mindmap (ru_id u) then ((403, Err ''Permission denied''), st)
          else
            let mindmap' = apply_body e u b mindmap
            in if save_throws e \<or> \<not> validates mindmap' then ((500, Err ''Server error''), st)
               else if populate_throws e
               then ((500, Err ''Server error''), save mid mindmap' st)
               else ((200, Mindmap_body mindmap'),
                     io_to_emit (room_of mid) (Mindmap_updated mindmap') (save mid mindmap' st))))"


text \<open>
  \<^verbatim>\<open>app.post("/api/mindmaps/:id/collaborators", ...)\<close>. \<open>lookup\<close> is
  \<^verbatim>\<open>User.findOne({username})\<close>, giving the user's id; a missing \<^verbatim>\<open>permission\<close>
  defaults to \<^verbatim>\<open>"read"\<close>. Here too \<^verbatim>\<open>populate\<close> follows the save.
\<close>

definition add_collaborator ::
  "env \<Rightarrow> (string \<rightharpoonup> string) \<Rightarrow> req_user \<Rightarrow> string \<Rightarrow> string \<Rightarrow> permission option \<Rightarrow> state
     \<Rightarrow> response \<times> state" where
  "add_collaborator e lookup u mid uname perm st =
     (if find_throws e then ((500, Err ''Server error''), st)
      else (case db st mid of
        None \<Rightarrow> ((404, Err ''Mind map not found''), st)
      | Some mindmap \<Rightarrow>
          if owner mindmap \<noteq> ru_id u
          then ((403, Err ''Only owner can add collaborators''), st)
          else (case lookup uname of
            None \<Rightarrow> ((404, Err ''User not found''), st)
          | Some uid \<Rightarrow>
              (case find (\<lambda>c. user c = uid) (collaborators mindmap) of
                 Some _ \<Rightarrow> ((400, Err ''User is already a collaborator''), st)
               | None \<Rightarrow>
                   let mindmap' = mindmap\<lparr>collaborators := collaborators mindmap @
                         [\<lparr>user = uid,
                           permission = (case perm of None \<Rightarrow> Read | Some p \<Rightarrow> p)\<rparr>]\<rparr>
                   in if save_throws e then ((500, Err ''Server error''), st)
                      else if populate_throws e
                      then ((500, Err ''Server error''), save mid mindmap' st)
                      else ((200, Collaborators_body (collaborators mindmap')),
                            save mid mindmap' st)))))"

text \<open>
  \<^verbatim>\<open>Number.prototype.toString\<close> on a non-negative integer below \<open>10\<^sup>2\<^sup>1\<close>, as every
  reading of the clock is: its decimal digits.
\<close>

function toString :: "nat \<Rightarrow> string" where
  "toString n =
     (if n < 10 then [''0123456789'' ! n]
      else toString (n div 10) @ [''0123456789'' ! (n mod 10)])"
  by pat_completeness auto
termination
  by (relation "measure id") auto

declare toString.simps [simp del]

text \<open>
  The keys a Mongoose map accepts in \<^verbatim>\<open>set\<close>: a key must not start with \<^verbatim>\<open>$\<close>, must
  not contain a dot, and must not be one of three reserved names. \<^verbatim>\<open>has\<close> and
  \<^verbatim>\<open>get\<close> take any key.
\<close>

definition valid_map_key :: "string \<Rightarrow> bool" where
  "valid_map_key k \<longleftrightarrow>
     \<not> (case k of [] \<Rightarrow> False | c # _ \<Rightarrow> c = CHR ''$'')
     \<and> CHR ''.'' \<notin> set k
     \<and> k \<notin> set [''__proto__'', ''constructor'', ''prototype'']"

text \<open>
  \<^verbatim>\<open>app.post("/api/mindmaps/:id/comments/:nodeId", ...)\<close>. \<^verbatim>\<open>req.body.text\<close> may be
  missing; \<^verbatim>\<open>!text\<close> holds for a missing and for an empty text. Whether the node
  has comments or not, the route reaches a \<^verbatim>\<open>comments.set(nodeId, ...)\<close>, which throws
  on a key the map does not accept. (The two route parameters are never empty: the
  router matches no empty segment.)
\<close>

definition post_comment ::
  "env \<Rightarrow> req_user \<Rightarrow> string \<Rightarrow> string \<Rightarrow> jsstring option \<Rightarrow> state \<Rightarrow> response \<times> state" where
  "post_comment e u mindmapId nid text_opt st =
     (case text_opt of
        None \<Rightarrow> ((400, Err ''Comment text is required''), st)
      | Some txt \<Rightarrow>
          if txt = [] \<or> trim txt = [] then ((400, Err ''Comment text is required''), st)
          else if find_throws e then ((500, Err ''Server error''), st)
          else (case db st mindmapId of
            None \<Rightarrow> ((404, Err ''Mind map not found''), st)
          | Some mindmap \<Rightarrow>
              if \<not> hasAccess mindmap (ru_id u) then ((403, Err ''Access denied''), st)
              else if \<not> valid_map_key nid then ((500, Err ''Server error''), st)
              else
                let c = \<lparr> c_id = toString (now e), c_text = trim txt,
                          c_author = ru_username u, c_authorId = ru_id u,
                          c_timestamp = now e \<rparr>;
                    cs = (case comments mindmap nid of
                            None \<Rightarrow> (comments mindmap)(nid \<mapsto> [])
                          | Some _ \<Rightarrow> comments mindmap);
                    nodeComments = (case cs nid of None \<Rightarrow> [] | Some l \<Rightarrow> l) @ [c];
                    mindmap' = mindmap\<lparr>comments := cs(nid \<mapsto> nodeComments), updatedAt := now e\<rparr>
                in if save_throws e then ((500, Err ''Server error''), st)
                   else ((201, Comment_body c),
                         io_to_emit (room_of mindmapId) (Comment_added nid c)
                           (save mindmapId mindmap' st))))"

subsection \<open>The editor's node list\<close>

text \<open>
  The React component keeps the nodes it draws in its own state, with the six fields it
  also sends when it saves. \<^verbatim>\<open>deleteNode\<close> acts on that state. An end of a link in
  that state is a node id until \<^verbatim>\<open>d3.forceLink\<close> has run on the link, and the node
  object itself afterwards.
\<close>

record cnode =
  v_id :: string
  v_x :: number
  v_y :: number
  v_text :: string
  v_level :: number
  v_color :: string

datatype link_end = Node_id string | Node_object cnode

record elink =
  el_source :: link_end
  el_target :: link_end

record editor =
  ed_nodes :: "cnode list"
  ed_links :: "elink list"
  selectedNode :: "cnode option"

text \<open>\<^verbatim>\<open>l.source !== selectedNode.id\<close>: an object is never identical to a string.\<close>

definition differs :: "link_end \<Rightarrow> string \<Rightarrow> bool" where
  "differs end sel = (case end of Node_id i \<Rightarrow> i \<noteq> sel | Node_object _ \<Rightarrow> True)"

definition deleteNode :: "editor \<Rightarrow> editor" where
  "deleteNode ed =
     (case selectedNode ed of
        None \<Rightarrow> ed
      | Some sel \<Rightarrow>
          if v_id sel = ''root'' then ed
          else ed\<lparr> ed_nodes := filter (\<lambda>n. v_id n \<noteq> v_id sel) (ed_nodes ed),
                   ed_links := filter (\<lambda>l. differs (el_source l) (v_id sel)
                                           \<and> differs (el_target l) (v_id sel))
                                 (ed_links ed),
                   selectedNode := None \<rparr>)"

text \<open>\<^verbatim>\<open>cleanNodes\<close> of \<^verbatim>\<open>saveMindMap\<close>: the node as the PUT request carries it.\<close>

definition clean_node :: "cnode \<Rightarrow> node_in" where
  "clean_node n =
     \<lparr> in_id = v_id n, in_x = v_x n, in_y = v_y n, in_text = v_text n,
       in_level = v_level n, in_color = v_color n,
       in_createdBy = None, in_createdAt = None \<rparr>"

subsection \<open>The access rule of the specification\<close>

text \<open>
  The effective permission as the specification words it: the owner has admin rights,
  otherwise the matching collaborator entry decides, otherwise a public document can be
  read, otherwise access is denied. The handlers do not compute this value; they test
  thresholds of it (\<open>hasAccess\<close>, \<open>canEdit\<close>, the owner test).
\<close>

datatype effective = Denied | Granted permission

definition effective_permission :: "mindmap \<Rightarrow> string \<Rightarrow> effective" where
  "effective_permission m uid =
     (if owner m = uid then Granted Admin
      else (case find (\<lambda>c. user c = uid) (collaborators m) of
        Some c \<Rightarrow> Granted (permission c)
      | None \<Rightarrow> if isPublic m then Granted Read else Denied))"

fun level_of :: "effective \<Rightarrow> nat" where
  "level_of Denied = 0"
| "level_of (Granted Read) = 1"
| "level_of (Granted Write) = 2"
| "level_of (Granted Admin) = 3"

subsection \<open>A running example\<close>

definition root_node :: node where
  "root_node =
     \<lparr> n_id = ''root'', n_x = 400, n_y = 300, n_text = ''Central Idea'', n_level = 0,
       n_color = ''#6366f1'', n_createdBy = ''alice'', n_createdAt = 0, n_updatedAt = 0 \<rparr>"

text \<open>
  A public mind map of alice (\<open>u1\<close>) on which bob (\<open>u2\<close>) may read; its title is
  \<^verbatim>\<open>"Plan"\<close>.
\<close>

definition demo_map :: mindmap where
  "demo_map =
     \<lparr> title = [0x50, 0x6C, 0x61, 0x6E], description = [], nodes = [root_node], links = [],
       comments = Map.empty, owner = ''u1'',
       collaborators = [\<lparr>user = ''u2'', permission = Read\<rparr>],
       isPublic = True, tags = [], createdAt = 0, updatedAt = 0, lastModifiedBy = None \<rparr>"

definition env0 :: env where
  "env0 = \<lparr> now = 1000, find_throws = False, save_throws = False,
            populate_throws = False \<rparr>"

definition env1 :: env where
  "env1 = \<lparr> now = 1500, find_throws = False, save_throws = False,
            populate_throws = False \<rparr>"

definition st_db :: state where
  "st_db = init_state\<lparr>db := [''d1'' \<mapsto> demo_map]\<rparr>"

text \<open>alice has joined \<open>d1\<close> on socket \<open>sA\<close>.\<close>

definition st_a :: state where
  "st_a = join_mindmap env0 ''sA'' ''d1'' (connect ''sA'' ''u1'' ''alice'' st_db)"

text \<open>Then bob has joined on socket \<open>sB\<close>.\<close>

definition st_ab :: state where
  "st_ab = join_mindmap env0 ''sB'' ''d1'' (connect ''sB'' ''u2'' ''bob'' st_a)"

definition alice :: active_user where
  "alice = \<lparr>au_id = ''u1'', au_username = ''alice''\<rparr>"

definition bob :: active_user where
  "bob = \<lparr>au_id = ''u2'', au_username = ''bob''\<rparr>"

definition carol :: active_user where
  "carol = \<lparr>au_id = ''u3'', au_username = ''carol''\<rparr>"

definition alice_req :: req_user where
  "alice_req = \<lparr>ru_id = ''u1'', ru_username = ''alice''\<rparr>"

definition bob_req :: req_user where
  "bob_req = \<lparr>ru_id = ''u2'', ru_username = ''bob''\<rparr>"

text \<open>PUT bodies that carry only \<^verbatim>\<open>nodes\<close> or only \<^verbatim>\<open>title\<close>, and a node without a root.\<close>

definition nodes_only :: "node_in list \<Rightarrow> put_body" where
  "nodes_only ns =
     \<lparr> b_title = None, b_description = None, b_nodes = Some ns, b_links = None,
       b_isPublic = None, b_tags = None \<rparr>"

definition title_only :: "jsstring \<Rightarrow> put_body" where
  "title_only t =
     \<lparr> b_title = Some t, b_description = None, b_nodes = None, b_links = None,
       b_isPublic = None, b_tags = None \<rparr>"

definition idea_node :: cnode where
  "idea_node =
     \<lparr> v_id = ''n1'', v_x = 420, v_y = 310, v_text = ''New Idea'', v_level = 1,
       v_color = ''#10b981'' \<rparr>"

text \<open>The editor showing the root and one idea, linked and drawn, the idea selected.\<close>

definition central_idea :: cnode where
  "central_idea =
     \<lparr> v_id = ''root'', v_x = 400, v_y = 300, v_text = ''Central Idea'', v_level = 0,
       v_color = ''#6366f1'' \<rparr>"

definition demo_editor :: editor where
  "demo_editor =
     \<lparr> ed_nodes = [central_idea, idea_node],
       ed_links = [\<lparr>el_source = Node_object central_idea, el_target = Node_object idea_node\<rparr>],
       selectedNode = Some idea_node \<rparr>"

text \<open>The text \<^verbatim>\<open>" hi "\<close>, a text of a space and a tab, and a title of two spaces.\<close>

definition padded_hi :: jsstring where
  "padded_hi = [0x20, 0x68, 0x69, 0x20]"

definition blank_text :: jsstring where
  "blank_text = [0x20, 0x9]"

definition blank_title :: jsstring where
  "blank_title = [0x20, 0x20]"

definition alice_socket :: socket where
  "alice_socket = \<lparr>userId = ''u1'', username = ''alice'', currentMindmap = Some ''d1''\<rparr>"

definition bob_socket :: socket where
  "bob_socket = \<lparr>userId = ''u2'', username = ''bob'', currentMindmap = Some ''d1''\<rparr>"

definition carol_socket :: socket where
  "carol_socket = \<lparr>userId = ''u3'', username = ''carol'', currentMindmap = Some ''d1''\<rparr>"

text \<open>The empty \<^verbatim>\<open>updates\<close> object, and two payloads built from it.\<close>

definition no_updates :: node_updates where
  "no_updates =
     \<lparr> u_id = None, u_x = None, u_y = None, u_text = None, u_level = None, u_color = None,
       u_createdBy = None, u_createdAt = None, u_updatedAt = None \<rparr>"

definition rename_root :: node_update_data where
  "rename_root = \<lparr>nodeId = ''root'', updates = no_updates\<lparr>u_text := Some ''Goal''\<rparr>\<rparr>"

definition recolor_root :: node_update_data where
  "recolor_root = \<lparr>nodeId = ''root'', updates = no_updates\<lparr>u_color := Some ''#ec4899''\<rparr>\<rparr>"

definition update_ghost :: node_update_data where
  "update_ghost = \<lparr>nodeId = ''ghost'', updates = no_updates\<lparr>u_text := Some ''Boo''\<rparr>\<rparr>"

subsection \<open>Notions used to state the properties\<close>

text \<open>A session has joined once \<^verbatim>\<open>join_mindmap\<close> has set \<^verbatim>\<open>socket.currentMindmap\<close>.\<close>

definition joined :: "state \<Rightarrow> sid \<Rightarrow> bool" where
  "joined st s =
     (case sockets st s of None \<Rightarrow> False | Some sock \<Rightarrow> currentMindmap sock \<noteq> None)"

text \<open>
  Every object in the presence table was allocated before the next reference to be
  handed out.
\<close>

definition refs_fresh :: "state \<Rightarrow> bool" where
  "refs_fresh st \<longleftrightarrow>
     (\<forall>d us. activeUsers st d = Some us \<longrightarrow> (\<forall>obj\<in>set us. fst obj < next_ref st))"

text \<open>The presence entries recorded for a mind map, none when the table has no key.\<close>

definition entries :: "state \<Rightarrow> string \<Rightarrow> active_user object_set" where
  "entries st d = (case activeUsers st d of None \<Rightarrow> [] | Some us \<Rightarrow> us)"

text \<open>
  The document after one \<^verbatim>\<open>node_update\<close> of user \<open>uid\<close> has been merged into it,
  the documents after each mutation of a burst, and the document after all of them.
\<close>

definition merge_update :: "string \<Rightarrow> env \<times> node_update_data \<Rightarrow> mindmap \<Rightarrow> mindmap" where
  "merge_update uid ev m =
     (case findIndex (\<lambda>n. n_id n = nodeId (snd ev)) (nodes m) of
        None \<Rightarrow> m
      | Some i \<Rightarrow>
          m\<lparr>nodes := (nodes m)[i := object_assign (nodes m ! i) (updates (snd ev))],
            updatedAt := now (fst ev),
            lastModifiedBy := Some uid\<rparr>)"

fun snapshots :: "string \<Rightarrow> mindmap \<Rightarrow> (env \<times> node_update_data) list \<Rightarrow> mindmap list" where
  "snapshots uid m [] = []"
| "snapshots uid m (ev # evs) = merge_update uid ev m # snapshots uid (merge_update uid ev m) evs"

definition cumulative :: "string \<Rightarrow> mindmap \<Rightarrow> (env \<times> node_update_data) list \<Rightarrow> mindmap" where
  "cumulative uid m evs = foldl (\<lambda>m' ev. merge_update uid ev m') m evs"

text \<open>A burst: the \<^verbatim>\<open>node_update\<close> events of one session, handled one after the other.\<close>

definition run_updates :: "sid \<Rightarrow> (env \<times> node_update_data) list \<Rightarrow> state \<Rightarrow> state" where
  "run_updates s evs st = foldl (\<lambda>st' ev. node_update (fst ev) s (snd ev) st') st evs"

section \<open>Properties\<close>

subsection \<open>The running example, evaluated\<close>

lemmas example_defs =
  st_a_def st_db_def env0_def demo_map_def root_node_def init_state_def
  alice_def bob_def carol_def alice_socket_def bob_socket_def carol_socket_def

lemmas handler_defs =
  join_mindmap_def connect_def socket_emit_def socket_to_emit_def socket_join_def
  hasAccess_def room_of_def set_add_def array_from_def Let_def

lemma st_a_eq:
  "st_a = \<lparr> db = [''d1'' \<mapsto> demo_map], writes = [],
            sockets = [''sA'' \<mapsto> alice_socket],
            rooms = ((\<lambda>_. {})(''mindmap:d1'' := {''sA''})),
            activeUsers = [''d1'' \<mapsto> [(0, alice)]], next_ref = 1,
            outbox = ((\<lambda>_. [])(''sA'' := [Active_users [alice]])) \<rparr>"
  by (simp add: example_defs handler_defs)

lemma demo_fields:
  "isPublic demo_map" "owner demo_map = ''u1''" "nodes demo_map = [root_node]"
  "collaborators demo_map = [\<lparr>user = ''u2'', permission = Read\<rparr>]"
  "comments demo_map = Map.empty" "title demo_map \<noteq> []" "links demo_map = []"
  by (simp_all add: demo_map_def)

lemma st_ab_eq:
  "st_ab = \<lparr> db = [''d1'' \<mapsto> demo_map], writes = [],
             sockets = [''sA'' \<mapsto> alice_socket, ''sB'' \<mapsto> bob_socket],
             rooms = ((\<lambda>_. {})(''mindmap:d1'' := {''sB'', ''sA''})),
             activeUsers = [''d1'' \<mapsto> [(0, alice), (1, bob)]], next_ref = 2,
             outbox = ((\<lambda>_. [])(''sA'' := [Active_users [alice], User_joined bob],
                                  ''sB'' := [Active_users [alice, bob]])) \<rparr>"
  unfolding st_ab_def st_a_eq
  by (simp add: handler_defs demo_fields env0_def alice_def bob_def bob_socket_def fun_eq_iff)

lemma demo_no_ghost: "findIndex (\<lambda>n. n_id n = ''ghost'') (nodes demo_map) = None"
  by (simp add: demo_fields root_node_def)

lemma demo_root_index: "findIndex (\<lambda>n. n_id n = ''root'') (nodes demo_map) = Some 0"
  by (simp add: demo_fields root_node_def)

subsection \<open>Events of a session that has not joined\<close>

lemma connect_not_joined: "\<not> joined (connect s uid uname st) s"
  by (simp add: joined_def connect_def)

lemma failed_join_not_joined:
  assumes "\<not> joined st s"
    and "find_throws e \<or> db st d = None \<or> (\<exists>m sock. db st d = Some m \<and> sockets st s = Some sock \<and> \<not> hasAccess m (userId sock))"
  shows "\<not> joined (join_mindmap e s d st) s"
  using assms
  by (auto simp: joined_def join_mindmap_def socket_emit_def split: option.splits)

text \<open>
  C10. A \<^verbatim>\<open>node_update\<close> or \<^verbatim>\<open>cursor_move\<close> of a session that has not joined a room
  leaves the whole state as it was: nothing is sent to anybody, the sender included, and
  no document, membership or write changes.
\<close>

theorem unjoined_events_dropped:
  "\<not> joined st s \<Longrightarrow> node_update e s d st = st \<and> cursor_move s c st = st"
  by (auto simp: joined_def node_update_def cursor_move_def split: option.splits)

theorem unjoined_events_dropped_witness:
  "\<not> joined (connect ''sC'' ''u3'' ''carol'' st_ab) ''sC''
   \<and> node_update env0 ''sC'' rename_root (connect ''sC'' ''u3'' ''carol'' st_ab)
       = connect ''sC'' ''u3'' ''carol'' st_ab
   \<and> cursor_move ''sC'' \<lparr>cur_x = 1, cur_y = 2\<rparr> (connect ''sC'' ''u3'' ''carol'' st_ab)
       = connect ''sC'' ''u3'' ''carol'' st_ab"
proof -
  have h: "\<not> joined (connect ''sC'' ''u3'' ''carol'' st_ab) ''sC''"
    by (rule connect_not_joined)
  show ?thesis
    using h unjoined_events_dropped [OF h] by simp
qed

subsection \<open>Relaying a node update\<close>

text \<open>
  C6. When a session that has joined mind map \<open>cm\<close> sends \<^verbatim>\<open>node_update\<close>, every other
  socket of the room receives one \<^verbatim>\<open>node_updated\<close> with the same node id and the same
  updates, and nothing is sent to the sender (or to a socket outside the room).
\<close>

theorem node_update_relayed:
  assumes "sockets st s = Some sock" and "currentMindmap sock = Some cm" and "cm \<noteq> []"
  shows "outbox (node_update e s d st) t =
           (if t \<in> rooms st (room_of cm) \<and> t \<noteq> s
            then outbox st t @ [Node_updated (nodeId d) (updates d) (username sock)]
            else outbox st t)"
  using assms
  by (auto simp: node_update_def socket_to_emit_def save_def Let_def split: option.splits)

theorem node_update_relayed_witness:
  "sockets st_ab ''sB'' = Some bob_socket \<and> currentMindmap bob_socket = Some ''d1''
   \<and> ''sA'' \<in> rooms st_ab (room_of ''d1'')
   \<and> outbox (node_update env0 ''sB'' rename_root st_ab) ''sA''
       = [Active_users [alice], User_joined bob,
          Node_updated ''root'' (updates rename_root) ''bob'']
   \<and> outbox (node_update env0 ''sB'' rename_root st_ab) ''sB'' = [Active_users [alice, bob]]"
proof -
  have h1: "sockets st_ab ''sB'' = Some bob_socket"
    by (simp add: st_ab_eq)
  have h2: "currentMindmap bob_socket = Some ''d1''"
    by (simp add: bob_socket_def)
  have h3: "''d1'' \<noteq> []"
    by simp
  have r: "rooms st_ab (room_of ''d1'') = {''sB'', ''sA''}"
    by (simp add: st_ab_eq room_of_def)
  have o: "outbox st_ab ''sA'' = [Active_users [alice], User_joined bob]"
      "outbox st_ab ''sB'' = [Active_users [alice, bob]]"
    by (simp_all add: st_ab_eq)
  show ?thesis
    using node_update_relayed [OF h1 h2 h3, of env0 rename_root "''sA''"]
      node_update_relayed [OF h1 h2 h3, of env0 rename_root "''sB''"] h1 h2 r o
    by (simp add: rename_root_def bob_socket_def)
qed

subsection \<open>Presence\<close>

text \<open>A deletion by a reference that is not in the set removes nothing.\<close>

lemma set_delete_fresh:
  "\<forall>obj\<in>set us. fst obj < r \<Longrightarrow> set_delete r us = us"
  by (induction us) (auto simp: set_delete_def)

lemma set_add_fresh:
  "\<forall>obj\<in>set us. fst obj < r \<Longrightarrow> set_add (r, x) us = us @ [(r, x)]"
  by (auto simp: set_add_def list_ex_iff)

text \<open>alice leaves: her entry stays in the table, and so does the key of the mind map.\<close>

lemma st_a_left_eq:
  "disconnect ''sA'' st_a =
     \<lparr> db = [''d1'' \<mapsto> demo_map], writes = [], sockets = Map.empty,
       rooms = (\<lambda>_. {}), activeUsers = [''d1'' \<mapsto> [(0, alice)]], next_ref = 2,
       outbox = ((\<lambda>_. [])(''sA'' := [Active_users [alice]])) \<rparr>"
  unfolding st_a_eq
  by (simp add: disconnect_def alice_socket_def set_delete_def socket_to_emit_def Let_def
      fun_eq_iff)

text \<open>
  C1. alice is the only member of \<open>d1\<close> and disconnects. The entry of \<open>d1\<close> in
  \<^verbatim>\<open>activeUsers\<close> is still there with alice in it, and carol, who joins next, is told
  that alice is present.
\<close>

theorem departed_member_still_listed:
  "activeUsers (disconnect ''sA'' st_a) ''d1'' = Some [(0, alice)]
   \<and> sockets (disconnect ''sA'' st_a) ''sA'' = None
   \<and> outbox (join_mindmap env0 ''sC'' ''d1''
               (connect ''sC'' ''u3'' ''carol'' (disconnect ''sA'' st_a))) ''sC''
       = [Active_users [alice, carol]]"
  unfolding st_a_left_eq
  by (simp add: handler_defs demo_fields env0_def carol_def)

text \<open>
  C2, as the claim has it, fails: with alice and bob present, carol's \<^verbatim>\<open>active_users\<close>
  has three entries, her own among them, and not the two of alice and bob.
\<close>

theorem join_list_has_joiner:
  "outbox (join_mindmap env0 ''sC'' ''d1'' (connect ''sC'' ''u3'' ''carol'' st_ab)) ''sC''
     = [Active_users [alice, bob, carol]]
   \<and> [Active_users [alice, bob, carol]] \<noteq> [Active_users [alice, bob]]"
  unfolding st_ab_eq
  by (simp add: handler_defs demo_fields env0_def carol_def)

text \<open>
  C2, amended. On a successful join the joining socket is sent one \<^verbatim>\<open>active_users\<close>
  with the entries recorded for the mind map followed by its own entry, and every other
  socket of the room is sent one \<^verbatim>\<open>user_joined\<close> with the joiner's id and name; a
  socket outside the room is sent nothing. (The references in the table are older than
  the next one to be allocated, as they are in every state the handlers produce.)
\<close>

theorem join_presence:
  assumes "sockets st s = Some sock" and "\<not> find_throws e" and "db st d = Some m"
    and "hasAccess m (userId sock)"
    and "\<forall>obj\<in>set (entries st d). fst obj < next_ref st"
  shows "outbox (join_mindmap e s d st) s =
           outbox st s @
             [Active_users (array_from (entries st d) @
                [\<lparr>au_id = userId sock, au_username = username sock\<rparr>])]
         \<and> (\<forall>t. t \<noteq> s \<longrightarrow>
              outbox (join_mindmap e s d st) t =
                (if t \<in> rooms st (room_of d)
                 then outbox st t @
                        [User_joined \<lparr>au_id = userId sock, au_username = username sock\<rparr>]
                 else outbox st t))"
proof (cases "activeUsers st d")
  case None
  with assms show ?thesis
    by (simp add: join_mindmap_def entries_def set_add_def array_from_def socket_emit_def
        socket_to_emit_def socket_join_def Let_def)
next
  case (Some us)
  with assms have "set_add (next_ref st, \<lparr>au_id = userId sock, au_username = username sock\<rparr>) us
      = us @ [(next_ref st, \<lparr>au_id = userId sock, au_username = username sock\<rparr>)]"
    by (simp add: entries_def set_add_fresh)
  with Some assms show ?thesis
    by (simp add: join_mindmap_def entries_def array_from_def socket_emit_def
        socket_to_emit_def socket_join_def Let_def)
qed

theorem join_presence_witness:
  "sockets (connect ''sC'' ''u3'' ''carol'' st_ab) ''sC''
     = Some \<lparr>userId = ''u3'', username = ''carol'', currentMindmap = None\<rparr>
   \<and> \<not> find_throws env0
   \<and> db (connect ''sC'' ''u3'' ''carol'' st_ab) ''d1'' = Some demo_map
   \<and> hasAccess demo_map ''u3''
   \<and> entries (connect ''sC'' ''u3'' ''carol'' st_ab) ''d1'' = [(0, alice), (1, bob)]
   \<and> next_ref (connect ''sC'' ''u3'' ''carol'' st_ab) = 2
   \<and> outbox (join_mindmap env0 ''sC'' ''d1'' (connect ''sC'' ''u3'' ''carol'' st_ab)) ''sC''
       = [Active_users [alice, bob, carol]]
   \<and> outbox (join_mindmap env0 ''sC'' ''d1'' (connect ''sC'' ''u3'' ''carol'' st_ab)) ''sA''
       = [Active_users [alice], User_joined bob, User_joined carol]
   \<and> outbox (join_mindmap env0 ''sC'' ''d1'' (connect ''sC'' ''u3'' ''carol'' st_ab)) ''sB''
       = [Active_users [alice, bob], User_joined carol]"
proof -
  let ?st = "connect ''sC'' ''u3'' ''carol'' st_ab"
  let ?sock = "\<lparr>userId = ''u3'', username = ''carol'', currentMindmap = None\<rparr>"
  have h1: "sockets ?st ''sC'' = Some ?sock"
    by (simp add: connect_def)
  have h2: "\<not> find_throws env0"
    by (simp add: env0_def)
  have h3: "db ?st ''d1'' = Some demo_map"
    by (simp add: connect_def st_ab_eq)
  have h4: "hasAccess demo_map (userId ?sock)"
    by (simp add: hasAccess_def demo_fields)
  have en: "entries ?st ''d1'' = [(0, alice), (1, bob)]"
    by (simp add: entries_def connect_def st_ab_eq)
  have nr: "next_ref ?st = 2"
    by (simp add: connect_def st_ab_eq)
  have h5: "\<forall>obj\<in>set (entries ?st ''d1''). fst obj < next_ref ?st"
    by (simp add: en nr)
  have r: "rooms ?st (room_of ''d1'') = {''sB'', ''sA''}"
    by (simp add: connect_def st_ab_eq room_of_def)
  have o: "outbox ?st ''sA'' = [Active_users [alice], User_joined bob]"
    "outbox ?st ''sB'' = [Active_users [alice, bob]]" "outbox ?st ''sC'' = []"
    by (simp_all add: connect_def st_ab_eq)
  show ?thesis
    using join_presence [OF h1 h2 h3 h4 h5] h1 h2 h3 h4 en nr r o
    by (simp add: array_from_def carol_def)
qed

subsection \<open>Node updates: permission, unknown nodes, writes\<close>

text \<open>carol has joined too, on socket \<open>sC\<close>.\<close>

lemma st_abc_eq:
  "join_mindmap env0 ''sC'' ''d1'' (connect ''sC'' ''u3'' ''carol'' st_ab) =
     \<lparr> db = [''d1'' \<mapsto> demo_map], writes = [],
       sockets = [''sA'' \<mapsto> alice_socket, ''sB'' \<mapsto> bob_socket, ''sC'' \<mapsto> carol_socket],
       rooms = ((\<lambda>_. {})(''mindmap:d1'' := {''sC'', ''sB'', ''sA''})),
       activeUsers = [''d1'' \<mapsto> [(0, alice), (1, bob), (2, carol)]], next_ref = 3,
       outbox = ((\<lambda>_. [])(''sA'' := [Active_users [alice], User_joined bob, User_joined carol],
                            ''sB'' := [Active_users [alice, bob], User_joined carol],
                            ''sC'' := [Active_users [alice, bob, carol]])) \<rparr>"
  unfolding st_ab_eq
  by (simp add: handler_defs demo_fields env0_def carol_def carol_socket_def fun_eq_iff)

lemma rename_root_node: "nodeId rename_root = ''root''"
  by (simp add: rename_root_def)

lemma root_node_id: "n_id root_node = ''root''"
  by (simp add: root_node_def)

lemma object_assign_rename:
  "object_assign root_node (updates rename_root) = root_node\<lparr>n_text := ''Goal''\<rparr>"
  by (simp add: object_assign_def assign_opt_def rename_root_def no_updates_def root_node_def)

text \<open>
  C3. carol is neither owner nor collaborator of the public mind map \<open>d1\<close>, so her
  effective permission is read and the PUT route would refuse her (\<open>canEdit\<close> fails).
  Her \<^verbatim>\<open>node_update\<close> is nevertheless relayed to alice and bob and written to the
  stored document, and she is sent no error.
\<close>

theorem reader_node_update_applied:
  "effective_permission demo_map ''u3'' = Granted Read
   \<and> \<not> canEdit demo_map ''u3''
   \<and> outbox (node_update env0 ''sC'' rename_root
               (join_mindmap env0 ''sC'' ''d1'' (connect ''sC'' ''u3'' ''carol'' st_ab))) ''sA''
       = [Active_users [alice], User_joined bob, User_joined carol,
          Node_updated ''root'' (updates rename_root) ''carol'']
   \<and> outbox (node_update env0 ''sC'' rename_root
               (join_mindmap env0 ''sC'' ''d1'' (connect ''sC'' ''u3'' ''carol'' st_ab))) ''sC''
       = [Active_users [alice, bob, carol]]
   \<and> db (node_update env0 ''sC'' rename_root
               (join_mindmap env0 ''sC'' ''d1'' (connect ''sC'' ''u3'' ''carol'' st_ab))) ''d1''
       = Some (demo_map\<lparr>nodes := [root_node\<lparr>n_text := ''Goal''\<rparr>], updatedAt := 1000,
                         lastModifiedBy := Some ''u3''\<rparr>)"
  unfolding st_abc_eq
  by (simp add: node_update_def socket_to_emit_def save_def Let_def carol_socket_def env0_def
      room_of_def rename_root_node root_node_id demo_root_index [unfolded demo_fields] demo_fields
      object_assign_rename effective_permission_def canEdit_def)

text \<open>
  C4, as the claim has it, fails: bob's update of a node \<open>ghost\<close>, which \<open>d1\<close> does not
  have, reaches alice as a \<^verbatim>\<open>node_updated\<close> event, and bob is sent no error.
\<close>

theorem unknown_node_update_broadcast:
  "findIndex (\<lambda>n. n_id n = nodeId update_ghost) (nodes demo_map) = None
   \<and> db st_ab ''d1'' = Some demo_map
   \<and> outbox (node_update env0 ''sB'' update_ghost st_ab) ''sA''
       = [Active_users [alice], User_joined bob,
          Node_updated ''ghost'' (updates update_ghost) ''bob'']
   \<and> outbox (node_update env0 ''sB'' update_ghost st_ab) ''sB'' = [Active_users [alice, bob]]"
  unfolding st_ab_eq
  by (simp add: node_update_def socket_to_emit_def save_def Let_def bob_socket_def env0_def
      room_of_def update_ghost_def demo_fields root_node_def)

lemma findIndex_None_iff: "findIndex P xs = None \<longleftrightarrow> (\<forall>x\<in>set xs. \<not> P x)"
  by (induction xs) auto

lemma findIndex_Some:
  "findIndex P xs = Some i \<Longrightarrow> i < length xs \<and> P (xs ! i)"
proof (induction xs arbitrary: i)
  case Nil
  then show ?case by simp
next
  case (Cons x xs)
  then show ?case
    by (cases "P x") (auto simp: nth_Cons')
qed

text \<open>
  C4, amended. When the node id of a \<^verbatim>\<open>node_update\<close> is not among the nodes of the
  sender's stored mind map, nothing is sent to the sender (no error either), every other
  socket of the room is still sent the \<^verbatim>\<open>node_updated\<close> event, and the stored documents
  and the log of writes are unchanged.
\<close>

theorem unknown_node_update:
  assumes "sockets st s = Some sock" and "currentMindmap sock = Some cm" and "cm \<noteq> []"
    and "db st cm = Some m" and "nodeId d \<notin> n_id ` set (nodes m)"
  shows "outbox (node_update e s d st) s = outbox st s
         \<and> (\<forall>t. t \<in> rooms st (room_of cm) \<and> t \<noteq> s \<longrightarrow>
               outbox (node_update e s d st) t =
                 outbox st t @ [Node_updated (nodeId d) (updates d) (username sock)])
         \<and> db (node_update e s d st) = db st
         \<and> writes (node_update e s d st) = writes st"
proof -
  from assms(5) have "findIndex (\<lambda>n. n_id n = nodeId d) (nodes m) = None"
    by (auto simp: findIndex_None_iff image_iff)
  with assms(1-4) show ?thesis
    by (simp add: node_update_def socket_to_emit_def Let_def)
qed

theorem unknown_node_update_witness:
  "sockets st_ab ''sB'' = Some bob_socket \<and> currentMindmap bob_socket = Some ''d1''
   \<and> db st_ab ''d1'' = Some demo_map
   \<and> nodeId update_ghost \<notin> n_id ` set (nodes demo_map)
   \<and> ''sA'' \<in> rooms st_ab (room_of ''d1'')
   \<and> outbox (node_update env0 ''sB'' update_ghost st_ab) ''sB'' = outbox st_ab ''sB''
   \<and> outbox (node_update env0 ''sB'' update_ghost st_ab) ''sA''
       = outbox st_ab ''sA'' @ [Node_updated ''ghost'' (updates update_ghost) ''bob'']
   \<and> db (node_update env0 ''sB'' update_ghost st_ab) = db st_ab
   \<and> writes (node_update env0 ''sB'' update_ghost st_ab) = []"
proof -
  have h1: "sockets st_ab ''sB'' = Some bob_socket"
    by (simp add: st_ab_eq)
  have h2: "currentMindmap bob_socket = Some ''d1''"
    by (simp add: bob_socket_def)
  have h3: "''d1'' \<noteq> []"
    by simp
  have h4: "db st_ab ''d1'' = Some demo_map"
    by (simp add: st_ab_eq)
  have h5: "nodeId update_ghost \<notin> n_id ` set (nodes demo_map)"
    by (simp add: update_ghost_def demo_fields root_node_def)
  have r: "''sA'' \<in> rooms st_ab (room_of ''d1'')"
    by (simp add: st_ab_eq room_of_def)
  have w: "writes st_ab = []"
    by (simp add: st_ab_eq)
  show ?thesis
    using unknown_node_update [OF h1 h2 h3 h4 h5, of env0] h1 h2 h4 h5 r w
    by (simp add: update_ghost_def bob_socket_def)
qed

subsection \<open>Bursts of node updates\<close>

lemma node_update_step:
  assumes "sockets st s = Some sock" and "currentMindmap sock = Some cm" and "cm \<noteq> []"
    and "db st cm = Some m" and "\<not> find_throws (fst ev)" and "\<not> save_throws (fst ev)"
    and "nodeId (snd ev) \<in> n_id ` set (nodes m)"
  shows "db (node_update (fst ev) s (snd ev) st) = (db st)(cm \<mapsto> merge_update (userId sock) ev m)"
    and "writes (node_update (fst ev) s (snd ev) st) = writes st @ [(cm, merge_update (userId sock) ev m)]"
    and "sockets (node_update (fst ev) s (snd ev) st) = sockets st"
proof -
  from assms(7) obtain i where "findIndex (\<lambda>n. n_id n = nodeId (snd ev)) (nodes m) = Some i"
    by (cases "findIndex (\<lambda>n. n_id n = nodeId (snd ev)) (nodes m)")
      (auto simp: findIndex_None_iff)
  with assms(1-6)
  show "db (node_update (fst ev) s (snd ev) st) = (db st)(cm \<mapsto> merge_update (userId sock) ev m)"
    and "writes (node_update (fst ev) s (snd ev) st) = writes st @ [(cm, merge_update (userId sock) ev m)]"
    and "sockets (node_update (fst ev) s (snd ev) st) = sockets st"
    by (simp_all add: node_update_def merge_update_def socket_to_emit_def save_def Let_def)
qed

lemma n_id_object_assign: "n_id (object_assign n u) = assign_opt (n_id n) (u_id u)"
  by (simp add: object_assign_def)

lemma merge_update_ids:
  assumes "assign_opt (nodeId (snd ev)) (u_id (updates (snd ev))) = nodeId (snd ev)"
  shows "map n_id (nodes (merge_update uid ev m)) = map n_id (nodes m)"
proof (cases "findIndex (\<lambda>n. n_id n = nodeId (snd ev)) (nodes m)")
  case None
  then show ?thesis by (simp add: merge_update_def)
next
  case (Some i)
  then have i: "i < length (nodes m)" "n_id (nodes m ! i) = nodeId (snd ev)"
    using findIndex_Some [of "\<lambda>n. n_id n = nodeId (snd ev)" "nodes m" i] by simp_all
  with assms have "(map n_id (nodes m))[i := n_id (object_assign (nodes m ! i) (updates (snd ev)))]
      = map n_id (nodes m)"
    by (simp add: n_id_object_assign list_update_same_conv)
  with Some show ?thesis
    by (simp add: merge_update_def map_update)
qed

lemma run_updates_Cons:
  "run_updates s (ev # evs) st = run_updates s evs (node_update (fst ev) s (snd ev) st)"
  by (simp add: run_updates_def)

lemma cumulative_Cons:
  "cumulative uid m (ev # evs) = cumulative uid (merge_update uid ev m) evs"
  by (simp add: cumulative_def)

lemma burst_induct:
  assumes "sockets st s = Some sock" and "currentMindmap sock = Some cm" and "cm \<noteq> []"
    and "db st cm = Some m"
    and "\<forall>ev\<in>set evs. \<not> find_throws (fst ev) \<and> \<not> save_throws (fst ev)
           \<and> nodeId (snd ev) \<in> set (map n_id (nodes m))
           \<and> assign_opt (nodeId (snd ev)) (u_id (updates (snd ev))) = nodeId (snd ev)"
  shows "writes (run_updates s evs st) = writes st @ map (Pair cm) (snapshots (userId sock) m evs)
         \<and> db (run_updates s evs st) cm = Some (cumulative (userId sock) m evs)"
  using assms
proof (induction evs arbitrary: st m)
  case Nil
  then show ?case by (simp add: run_updates_def cumulative_def)
next
  case (Cons ev evs)
  let ?m = "merge_update (userId sock) ev m"
  let ?st = "node_update (fst ev) s (snd ev) st"
  from Cons.prems have ev: "\<not> find_throws (fst ev)" "\<not> save_throws (fst ev)"
      "nodeId (snd ev) \<in> n_id ` set (nodes m)"
      "assign_opt (nodeId (snd ev)) (u_id (updates (snd ev))) = nodeId (snd ev)"
    by simp_all
  note step = node_update_step [OF Cons.prems(1-4) ev(1-3)]
  have ids: "map n_id (nodes ?m) = map n_id (nodes m)"
    using ev(4) by (rule merge_update_ids)
  have "writes (run_updates s evs ?st) = writes ?st @ map (Pair cm) (snapshots (userId sock) ?m evs)
      \<and> db (run_updates s evs ?st) cm = Some (cumulative (userId sock) ?m evs)"
  proof (rule Cons.IH)
    show "sockets ?st s = Some sock" using step(3) Cons.prems(1) by simp
    show "currentMindmap sock = Some cm" by (rule Cons.prems(2))
    show "cm \<noteq> []" by (rule Cons.prems(3))
    show "db ?st cm = Some ?m" using step(1) by simp
    show "\<forall>ev\<in>set evs. \<not> find_throws (fst ev) \<and> \<not> save_throws (fst ev)
           \<and> nodeId (snd ev) \<in> set (map n_id (nodes ?m))
           \<and> assign_opt (nodeId (snd ev)) (u_id (updates (snd ev))) = nodeId (snd ev)"
      using Cons.prems(5) unfolding ids by simp
  qed
  then show ?case
    by (simp add: run_updates_Cons cumulative_Cons step(2))
qed

lemma length_snapshots: "length (snapshots uid m evs) = length evs"
  by (induction evs arbitrary: m) simp_all

lemma last_snapshots: "evs \<noteq> [] \<Longrightarrow> last (snapshots uid m evs) = cumulative uid m evs"
proof (induction evs arbitrary: m)
  case Nil
  then show ?case by simp
next
  case (Cons ev evs)
  then show ?case
    by (cases evs) (simp_all add: cumulative_Cons cumulative_def)
qed

text \<open>
  C5, as the claim has it, fails: alice's two updates of the root node, half a second
  apart, are written to the store one by one, so the burst makes two durable writes.
\<close>

theorem burst_of_two_writes_twice:
  "now env1 - now env0 < 2000
   \<and> map fst (writes (run_updates ''sA'' [(env0, rename_root), (env1, recolor_root)] st_a))
       = [''d1'', ''d1'']
   \<and> length (writes (run_updates ''sA'' [(env0, rename_root), (env1, recolor_root)] st_a)) \<noteq> 1"
  unfolding st_a_eq
  by (simp add: run_updates_def node_update_def socket_to_emit_def save_def Let_def
      alice_socket_def env0_def env1_def rename_root_def recolor_root_def
      demo_fields root_node_def object_assign_def assign_opt_def no_updates_def)

text \<open>
  C5, amended. When a joined session sends a burst of \<open>N\<close> \<^verbatim>\<open>node_update\<close> events for
  nodes of its mind map, none of them renaming its node, and the handler runs follow one
  another with the database calls succeeding, then the burst makes \<open>N\<close> durable writes,
  one per event: the \<open>k\<close>-th write holds the document after the first \<open>k\<close> updates were
  merged, and the last write, which is also the stored document, holds the cumulative
  effect of all \<open>N\<close>.
\<close>

theorem burst_writes:
  assumes "sockets st s = Some sock" and "currentMindmap sock = Some cm" and "cm \<noteq> []"
    and "db st cm = Some m"
    and "\<forall>ev\<in>set evs. \<not> find_throws (fst ev) \<and> \<not> save_throws (fst ev)
           \<and> nodeId (snd ev) \<in> set (map n_id (nodes m))
           \<and> assign_opt (nodeId (snd ev)) (u_id (updates (snd ev))) = nodeId (snd ev)"
  shows "writes (run_updates s evs st) = writes st @ map (Pair cm) (snapshots (userId sock) m evs)
         \<and> length (snapshots (userId sock) m evs) = length evs
         \<and> db (run_updates s evs st) cm = Some (cumulative (userId sock) m evs)
         \<and> (evs \<noteq> [] \<longrightarrow>
              last (snapshots (userId sock) m evs) = cumulative (userId sock) m evs)"
  using burst_induct [OF assms] by (simp add: length_snapshots last_snapshots)

lemma demo_cumulative:
  "cumulative ''u1'' demo_map [(env0, rename_root), (env1, recolor_root)] =
     demo_map\<lparr>nodes := [root_node\<lparr>n_text := ''Goal'', n_color := ''#ec4899''\<rparr>],
               updatedAt := 1500, lastModifiedBy := Some ''u1''\<rparr>"
  by (simp add: cumulative_def merge_update_def demo_fields root_node_def env0_def env1_def
      rename_root_def recolor_root_def object_assign_def assign_opt_def no_updates_def)

theorem burst_writes_witness:
  "sockets st_a ''sA'' = Some alice_socket \<and> currentMindmap alice_socket = Some ''d1''
   \<and> db st_a ''d1'' = Some demo_map
   \<and> set (map (nodeId \<circ> snd) [(env0, rename_root), (env1, recolor_root)])
        \<subseteq> set (map n_id (nodes demo_map))
   \<and> length (writes (run_updates ''sA'' [(env0, rename_root), (env1, recolor_root)] st_a)) = 2
   \<and> db (run_updates ''sA'' [(env0, rename_root), (env1, recolor_root)] st_a) ''d1''
       = Some (demo_map\<lparr>nodes := [root_node\<lparr>n_text := ''Goal'', n_color := ''#ec4899''\<rparr>],
                         updatedAt := 1500, lastModifiedBy := Some ''u1''\<rparr>)
   \<and> last (snapshots ''u1'' demo_map [(env0, rename_root), (env1, recolor_root)])
       = demo_map\<lparr>nodes := [root_node\<lparr>n_text := ''Goal'', n_color := ''#ec4899''\<rparr>],
                   updatedAt := 1500, lastModifiedBy := Some ''u1''\<rparr>"
proof -
  let ?evs = "[(env0, rename_root), (env1, recolor_root)]"
  have h1: "sockets st_a ''sA'' = Some alice_socket"
    by (simp add: st_a_eq)
  have h2: "currentMindmap alice_socket = Some ''d1''"
    by (simp add: alice_socket_def)
  have h3: "''d1'' \<noteq> []"
    by simp
  have h4: "db st_a ''d1'' = Some demo_map"
    by (simp add: st_a_eq)
  have h5: "\<forall>ev\<in>set ?evs. \<not> find_throws (fst ev) \<and> \<not> save_throws (fst ev)
           \<and> nodeId (snd ev) \<in> set (map n_id (nodes demo_map))
           \<and> assign_opt (nodeId (snd ev)) (u_id (updates (snd ev))) = nodeId (snd ev)"
    by (simp add: env0_def env1_def rename_root_def recolor_root_def no_updates_def
        assign_opt_def demo_fields root_node_def)
  have ids: "set (map (nodeId \<circ> snd) ?evs) \<subseteq> set (map n_id (nodes demo_map))"
    by (simp add: rename_root_def recolor_root_def demo_fields root_node_def)
  have w: "writes st_a = []"
    by (simp add: st_a_eq)
  have u: "userId alice_socket = ''u1''"
    by (simp add: alice_socket_def)
  show ?thesis
    using burst_writes [OF h1 h2 h3 h4 h5] h1 h2 h4 ids
    by (simp add: w u demo_cumulative)
qed

subsection \<open>Comments\<close>

lemma trim_Nil_iff: "trim t = [] \<longleftrightarrow> list_all is_white_space t"
proof
  assume "trim t = []"
  then have all: "\<forall>c\<in>set (dropWhile is_white_space t). is_white_space c"
    by (simp add: trim_def dropWhile_eq_Nil_conv)
  have "dropWhile is_white_space t = []"
  proof (rule ccontr)
    assume ne: "dropWhile is_white_space t \<noteq> []"
    then have "\<not> is_white_space (hd (dropWhile is_white_space t))"
      by (rule hd_dropWhile)
    moreover from ne have "hd (dropWhile is_white_space t) \<in> set (dropWhile is_white_space t)"
      by (rule hd_in_set)
    ultimately show False using all by blast
  qed
  then show "list_all is_white_space t"
    by (simp add: dropWhile_eq_Nil_conv list_all_iff)
next
  assume "list_all is_white_space t"
  then show "trim t = []"
    by (auto simp: trim_def list_all_iff dest: set_dropWhileD)
qed

lemma hasAccess_iff_level: "hasAccess m uid \<longleftrightarrow> 1 \<le> level_of (effective_permission m uid)"
proof (cases "find (\<lambda>c. user c = uid) (collaborators m)")
  case None
  then have "\<not> list_ex (\<lambda>c. user c = uid) (collaborators m)"
    by (simp add: find_None_iff list_ex_iff)
  with None show ?thesis
    by (simp add: hasAccess_def effective_permission_def)
next
  case (Some c)
  then have "list_ex (\<lambda>c. user c = uid) (collaborators m)"
    by (auto simp: find_Some_iff list_ex_iff)
  with Some show ?thesis
    by (cases "permission c") (simp_all add: hasAccess_def effective_permission_def)
qed

lemma trim_padded_hi: "trim padded_hi = [0x68, 0x69]"
  by (simp add: trim_def padded_hi_def is_white_space_def)

lemma toString_1000: "toString 1000 = ''1000''"
  by (simp add: toString.simps)

lemma padded_hi_kept: "padded_hi \<noteq> []" "trim padded_hi \<noteq> []"
  by (simp_all add: trim_padded_hi) (simp add: padded_hi_def)


text \<open>
  C7, as the claim has it, fails: bob may read \<open>d1\<close> and his text is \<^verbatim>\<open>" hi "\<close>, but the
  node id \<^verbatim>\<open>a.b\<close> is no key of a Mongoose map, so the route answers 500 and the state
  stays as it was: nothing is appended and nothing relayed.
\<close>

theorem comment_on_dotted_node_refused:
  "\<not> list_all is_white_space padded_hi
   \<and> db st_ab ''d1'' = Some demo_map
   \<and> level_of (effective_permission demo_map (ru_id bob_req)) = 1
   \<and> post_comment env0 bob_req ''d1'' ''a.b'' (Some padded_hi) st_ab
       = ((500, Err ''Server error''), st_ab)"
  unfolding st_ab_eq
  by (simp add: post_comment_def hasAccess_def effective_permission_def demo_fields
      bob_req_def env0_def padded_hi_kept valid_map_key_def)
    (simp add: padded_hi_def is_white_space_def)

text \<open>
  C7, amended. A comment whose text is missing, empty or made of white space only is
  answered with status 400 and changes nothing. A comment with other text, sent by a
  user whose effective permission on the stored mind map is at least read, is answered
  with status 500 and changes nothing when the node id is no key of a Mongoose map
  (it starts with \<^verbatim>\<open>$\<close>, has a dot, or is a reserved name). When the node id is such a
  key and the lookup and the save succeed, it is answered with status 201: the trimmed
  text, with the clock's reading as id and timestamp, is appended to the comments of
  that node in the stored document, and \<^verbatim>\<open>comment_added\<close> is sent to every socket of
  the room.
\<close>

theorem comment_add:
  "post_comment e u mid nid None st = ((400, Err ''Comment text is required''), st)
   \<and> (list_all is_white_space ctext \<longrightarrow>
        post_comment e u mid nid (Some ctext) st = ((400, Err ''Comment text is required''), st))
   \<and> (\<not> list_all is_white_space ctext \<and> \<not> find_throws e
        \<and> db st mid = Some m \<and> 1 \<le> level_of (effective_permission m (ru_id u))
        \<and> \<not> valid_map_key nid \<longrightarrow>
        post_comment e u mid nid (Some ctext) st = ((500, Err ''Server error''), st))
   \<and> (\<not> list_all is_white_space ctext \<and> \<not> find_throws e \<and> \<not> save_throws e
        \<and> db st mid = Some m \<and> 1 \<le> level_of (effective_permission m (ru_id u))
        \<and> valid_map_key nid \<longrightarrow>
        (let c = \<lparr> c_id = toString (now e), c_text = trim ctext, c_author = ru_username u,
                   c_authorId = ru_id u, c_timestamp = now e \<rparr>;
             st' = snd (post_comment e u mid nid (Some ctext) st)
         in fst (post_comment e u mid nid (Some ctext) st) = (201, Comment_body c)
            \<and> c_text c \<noteq> []
            \<and> map_option (\<lambda>m'. comments m' nid) (db st' mid)
                = Some (Some ((case comments m nid of None \<Rightarrow> [] | Some l \<Rightarrow> l) @ [c]))
            \<and> (\<forall>t. outbox st' t =
                  (if t \<in> rooms st (room_of mid)
                   then outbox st t @ [Comment_added nid c] else outbox st t))))"
proof (intro conjI impI)
  show "post_comment e u mid nid None st = ((400, Err ''Comment text is required''), st)"
    by (simp add: post_comment_def)
next
  assume "list_all is_white_space ctext"
  then have "trim ctext = []" by (simp add: trim_Nil_iff)
  then show "post_comment e u mid nid (Some ctext) st
      = ((400, Err ''Comment text is required''), st)"
    by (simp add: post_comment_def)
next
  assume a: "\<not> list_all is_white_space ctext \<and> \<not> find_throws e
        \<and> db st mid = Some m \<and> 1 \<le> level_of (effective_permission m (ru_id u))
        \<and> \<not> valid_map_key nid"
  then have t: "trim ctext \<noteq> []" "ctext \<noteq> []"
    by (auto simp: trim_Nil_iff)
  from a have acc: "hasAccess m (ru_id u)"
    by (simp add: hasAccess_iff_level)
  from a t acc show "post_comment e u mid nid (Some ctext) st = ((500, Err ''Server error''), st)"
    by (simp add: post_comment_def)
next
  assume a: "\<not> list_all is_white_space ctext \<and> \<not> find_throws e \<and> \<not> save_throws e
        \<and> db st mid = Some m \<and> 1 \<le> level_of (effective_permission m (ru_id u))
        \<and> valid_map_key nid"
  then have t: "trim ctext \<noteq> []" "ctext \<noteq> []"
    by (auto simp: trim_Nil_iff)
  from a have acc: "hasAccess m (ru_id u)"
    by (simp add: hasAccess_iff_level)
  from a t acc show "let c = \<lparr> c_id = toString (now e), c_text = trim ctext,
                   c_author = ru_username u, c_authorId = ru_id u, c_timestamp = now e \<rparr>;
             st' = snd (post_comment e u mid nid (Some ctext) st)
         in fst (post_comment e u mid nid (Some ctext) st) = (201, Comment_body c)
            \<and> c_text c \<noteq> []
            \<and> map_option (\<lambda>m'. comments m' nid) (db st' mid)
                = Some (Some ((case comments m nid of None \<Rightarrow> [] | Some l \<Rightarrow> l) @ [c]))
            \<and> (\<forall>t. outbox st' t =
                  (if t \<in> rooms st (room_of mid)
                   then outbox st t @ [Comment_added nid c] else outbox st t))"
    by (cases "comments m nid") (simp_all add: post_comment_def Let_def save_def io_to_emit_def)
qed

theorem comment_add_witness:
  "list_all is_white_space blank_text
   \<and> post_comment env0 bob_req ''d1'' ''root'' (Some blank_text) st_ab
       = ((400, Err ''Comment text is required''), st_ab)
   \<and> \<not> list_all is_white_space padded_hi
   \<and> db st_ab ''d1'' = Some demo_map
   \<and> level_of (effective_permission demo_map (ru_id bob_req)) = 1
   \<and> \<not> valid_map_key ''$set''
   \<and> post_comment env0 bob_req ''d1'' ''$set'' (Some padded_hi) st_ab
       = ((500, Err ''Server error''), st_ab)
   \<and> valid_map_key ''root''
   \<and> fst (post_comment env0 bob_req ''d1'' ''root'' (Some padded_hi) st_ab)
       = (201, Comment_body \<lparr> c_id = ''1000'', c_text = [0x68, 0x69], c_author = ''bob'',
                               c_authorId = ''u2'', c_timestamp = 1000 \<rparr>)
   \<and> map_option (\<lambda>m'. comments m' ''root'')
        (db (snd (post_comment env0 bob_req ''d1'' ''root'' (Some padded_hi) st_ab)) ''d1'')
       = Some (Some [\<lparr> c_id = ''1000'', c_text = [0x68, 0x69], c_author = ''bob'',
                        c_authorId = ''u2'', c_timestamp = 1000 \<rparr>])
   \<and> outbox (snd (post_comment env0 bob_req ''d1'' ''root'' (Some padded_hi) st_ab)) ''sA''
       = [Active_users [alice], User_joined bob,
          Comment_added ''root'' \<lparr> c_id = ''1000'', c_text = [0x68, 0x69], c_author = ''bob'',
                                   c_authorId = ''u2'', c_timestamp = 1000 \<rparr>]"
proof -
  have b: "list_all is_white_space blank_text"
    by (simp add: blank_text_def is_white_space_def)
  have p: "\<not> list_all is_white_space padded_hi"
    by (simp add: padded_hi_def is_white_space_def)
  have e: "\<not> find_throws env0" "\<not> save_throws env0" "now env0 = 1000"
    by (simp_all add: env0_def)
  have d: "db st_ab ''d1'' = Some demo_map"
    by (simp add: st_ab_eq)
  have l: "level_of (effective_permission demo_map (ru_id bob_req)) = 1"
    by (simp add: effective_permission_def demo_fields bob_req_def)
  have k: "\<not> valid_map_key ''$set''" "valid_map_key ''root''"
    by (simp_all add: valid_map_key_def)
  have r: "''sA'' \<in> rooms st_ab (room_of ''d1'')"
    by (simp add: st_ab_eq room_of_def)
  have o: "outbox st_ab ''sA'' = [Active_users [alice], User_joined bob]"
    by (simp add: st_ab_eq)
  have u: "ru_id bob_req = ''u2''" "ru_username bob_req = ''bob''"
    by (simp_all add: bob_req_def)
  show ?thesis
    using comment_add [of env0 bob_req "''d1''" "''root''" st_ab blank_text demo_map]
      comment_add [of env0 bob_req "''d1''" "''$set''" st_ab padded_hi demo_map]
      comment_add [of env0 bob_req "''d1''" "''root''" st_ab padded_hi demo_map]
      b p e d l k r o
    by (simp add: Let_def trim_padded_hi toString_1000 u demo_fields)
qed

subsection \<open>The access gate\<close>



lemma put_mindmap_status:
  "fst (fst (put_mindmap e u mid b st)) =
     (if find_throws e then 500
      else case db st mid of
        None \<Rightarrow> 404
      | Some m \<Rightarrow>
          if \<not> canEdit m (ru_id u) then 403
          else if save_throws e \<or> \<not> validates (apply_body e u b m) \<or> populate_throws e
          then 500 else 200)"
  by (cases "db st mid") (simp_all add: put_mindmap_def Let_def)


lemma put_mindmap_stored:
  assumes "fst (fst (put_mindmap e u mid b st)) = 200" and "db st mid = Some m"
  shows "db (snd (put_mindmap e u mid b st)) mid = Some (apply_body e u b m)"
proof -
  from assms have "\<not> find_throws e" "canEdit m (ru_id u)" "\<not> save_throws e"
      "validates (apply_body e u b m)" "\<not> populate_throws e"
    unfolding put_mindmap_status by (simp_all split: if_splits)
  with assms(2) show ?thesis
    by (simp add: put_mindmap_def Let_def save_def io_to_emit_def)
qed




text \<open>The collaborator list never names a user twice: the only handler that extends it checks.\<close>

lemma add_collaborator_distinct:
  assumes "db st mid' = Some m" and "distinct (map user (collaborators m))"
    and "db (snd (add_collaborator e lookup u mid uname perm st)) mid' = Some m'"
  shows "distinct (map user (collaborators m'))"
  using assms
  by (auto simp: add_collaborator_def save_def Let_def find_None_iff
      split: option.splits if_splits)






subsection \<open>The root node\<close>

lemma map_update_same: "f y = f (xs ! i) \<Longrightarrow> map f (xs[i := y]) = map f xs"
proof (cases "i < length xs")
  case True
  assume "f y = f (xs ! i)"
  with True show ?thesis
    by (simp add: map_update list_update_same_conv)
next
  case False
  then show ?thesis by (simp add: not_less list_update_beyond)
qed

lemma node_update_db:
  "db (node_update e s d st) mid = db st mid
   \<or> (\<exists>m i uid. db st mid = Some m \<and> i < length (nodes m)
        \<and> db (node_update e s d st) mid =
            Some (m\<lparr>nodes := (nodes m)[i := object_assign (nodes m ! i) (updates d)],
                   updatedAt := now e, lastModifiedBy := Some uid\<rparr>))"
  by (auto simp: node_update_def socket_to_emit_def save_def Let_def
      dest: findIndex_Some split: option.splits)

lemma node_update_ids:
  assumes "u_id (updates d) = None"
  shows "map_option (map n_id \<circ> nodes) (db (node_update e s d st) mid)
           = map_option (map n_id \<circ> nodes) (db st mid)"
proof -
  have "n_id (object_assign n (updates d)) = n_id n" for n
    using assms by (simp add: object_assign_def assign_opt_def)
  then have "map n_id (xs[i := object_assign (xs ! i) (updates d)]) = map n_id xs" for xs i
    by (rule map_update_same)
  then show ?thesis
    using node_update_db [of e s d st mid] by auto
qed

lemma apply_body_ids:
  "map n_id (nodes (apply_body e u b m))
     = (case b_nodes b of None \<Rightarrow> map n_id (nodes m) | Some ns \<Rightarrow> map in_id ns)"
proof -
  have ids: "map (n_id \<circ> process_node e u) ns = map in_id ns" for ns
    by (simp add: process_node_def comp_def)
  show ?thesis
    by (cases "b_title b"; cases "b_description b"; cases "b_nodes b"; cases "b_links b";
        cases "b_isPublic b"; cases "b_tags b")
      (simp_all add: apply_body_def Let_def ids)
qed

lemma put_mindmap_nodes:
  assumes "fst (fst (put_mindmap e u mid b st)) = 200"
  shows "map_option (map n_id \<circ> nodes) (db (snd (put_mindmap e u mid b st)) mid)
           = (case b_nodes b of
                None \<Rightarrow> map_option (map n_id \<circ> nodes) (db st mid)
              | Some ns \<Rightarrow> Some (map in_id ns))"
proof (cases "db st mid")
  case None
  with assms show ?thesis
    unfolding put_mindmap_status by (simp split: if_splits)
next
  case (Some m)
  with assms show ?thesis
    by (cases "b_nodes b") (simp_all add: put_mindmap_stored apply_body_ids)
qed

text \<open>
  C9, as the claim has it, fails: the owner's PUT with a node list that has no root is
  answered with 200, and the stored document then has the single node \<open>n1\<close>.
\<close>

theorem put_drops_root:
  "map n_id (nodes demo_map) = [''root'']
   \<and> fst (fst (put_mindmap env0 alice_req ''d1'' (nodes_only [clean_node idea_node]) st_db)) = 200
   \<and> map_option (map n_id \<circ> nodes)
        (db (snd (put_mindmap env0 alice_req ''d1'' (nodes_only [clean_node idea_node]) st_db))
           ''d1'')
       = Some [''n1'']"
  by (simp add: put_mindmap_def apply_body_def validates_def valid_node_def Let_def save_def
      io_to_emit_def st_db_def init_state_def canEdit_def demo_fields env0_def alice_req_def
      nodes_only_def clean_node_def idea_node_def process_node_def root_node_def)

text \<open>
  C9, amended. The editor's \<^verbatim>\<open>deleteNode\<close> neither removes nor adds a node with id
  \<open>root\<close>; a \<^verbatim>\<open>node_update\<close> whose updates have no \<^verbatim>\<open>id\<close> key leaves the node ids of
  every stored document as they are; and a PUT answered with 200 stores the node ids of
  the list it was sent (the ids stay when it was sent none). So a document that has
  exactly one root keeps it under the first two, and under a PUT as far as the submitted
  list has exactly one.
\<close>

theorem root_node_kept:
  "filter (\<lambda>n. v_id n = ''root'') (ed_nodes (deleteNode ed))
     = filter (\<lambda>n. v_id n = ''root'') (ed_nodes ed)
   \<and> (u_id (updates d) = None \<longrightarrow>
        map_option (map n_id \<circ> nodes) (db (node_update e s d st) mid)
          = map_option (map n_id \<circ> nodes) (db st mid))
   \<and> (fst (fst (put_mindmap e u mid b st)) = 200 \<longrightarrow>
        map_option (map n_id \<circ> nodes) (db (snd (put_mindmap e u mid b st)) mid)
          = (case b_nodes b of
               None \<Rightarrow> map_option (map n_id \<circ> nodes) (db st mid)
             | Some ns \<Rightarrow> Some (map in_id ns)))"
proof (intro conjI impI)
  show "filter (\<lambda>n. v_id n = ''root'') (ed_nodes (deleteNode ed))
     = filter (\<lambda>n. v_id n = ''root'') (ed_nodes ed)"
  proof (cases "selectedNode ed")
    case None
    then show ?thesis by (simp add: deleteNode_def)
  next
    case (Some sel)
    show ?thesis
    proof (cases "v_id sel = ''root''")
      case True
      with Some show ?thesis by (simp add: deleteNode_def)
    next
      case False
      have "filter (\<lambda>n. v_id n = ''root'') (filter (\<lambda>n. v_id n \<noteq> v_id sel) xs)
          = filter (\<lambda>n. v_id n = ''root'') xs" for xs :: "cnode list"
        using False by (induction xs) auto
      with Some False show ?thesis by (simp add: deleteNode_def)
    qed
  qed
next
  assume "u_id (updates d) = None"
  then show "map_option (map n_id \<circ> nodes) (db (node_update e s d st) mid)
          = map_option (map n_id \<circ> nodes) (db st mid)"
    by (rule node_update_ids)
next
  assume "fst (fst (put_mindmap e u mid b st)) = 200"
  then show "map_option (map n_id \<circ> nodes) (db (snd (put_mindmap e u mid b st)) mid)
          = (case b_nodes b of
               None \<Rightarrow> map_option (map n_id \<circ> nodes) (db st mid)
             | Some ns \<Rightarrow> Some (map in_id ns))"
    by (rule put_mindmap_nodes)
qed

theorem root_node_kept_witness:
  "filter (\<lambda>n. v_id n = ''root'') (ed_nodes (deleteNode demo_editor)) = [central_idea]
   \<and> ed_nodes (deleteNode demo_editor) = [central_idea]
   \<and> u_id (updates rename_root) = None
   \<and> map_option (map n_id \<circ> nodes) (db (node_update env0 ''sA'' rename_root st_a) ''d1'')
       = Some [''root'']
   \<and> fst (fst (put_mindmap env0 alice_req ''d1''
                 (nodes_only (map clean_node [central_idea, idea_node])) st_a)) = 200
   \<and> map_option (map n_id \<circ> nodes)
        (db (snd (put_mindmap env0 alice_req ''d1''
                    (nodes_only (map clean_node [central_idea, idea_node])) st_a)) ''d1'')
       = Some [''root'', ''n1'']"
proof -
  let ?b = "nodes_only (map clean_node [central_idea, idea_node])"
  have k: "filter (\<lambda>n. v_id n = ''root'') (ed_nodes demo_editor) = [central_idea]"
    by (simp add: demo_editor_def central_idea_def idea_node_def)
  have dn: "ed_nodes (deleteNode demo_editor) = [central_idea]"
    by (simp add: deleteNode_def demo_editor_def central_idea_def idea_node_def)
  have h1: "u_id (updates rename_root) = None"
    by (simp add: rename_root_def no_updates_def)
  have d1: "db st_a ''d1'' = Some demo_map"
    by (simp add: st_a_eq)
  have h2: "fst (fst (put_mindmap env0 alice_req ''d1'' ?b st_a)) = 200"
    by (simp add: put_mindmap_status d1 env0_def canEdit_def demo_fields alice_req_def
        validates_def valid_node_def apply_body_def nodes_only_def process_node_def
        clean_node_def central_idea_def idea_node_def)
  have b: "b_nodes ?b = Some (map clean_node [central_idea, idea_node])"
    by (simp add: nodes_only_def)
  note kept = root_node_kept [where ed = demo_editor and d = rename_root and e = env0
      and s = "''sA''" and st = st_a and mid = "''d1''" and u = alice_req and b = ?b]
  from kept have 1: "filter (\<lambda>n. v_id n = ''root'') (ed_nodes (deleteNode demo_editor))
      = filter (\<lambda>n. v_id n = ''root'') (ed_nodes demo_editor)"
    by (rule conjunct1)
  from kept h1 have 2: "map_option (map n_id \<circ> nodes)
        (db (node_update env0 ''sA'' rename_root st_a) ''d1'')
      = map_option (map n_id \<circ> nodes) (db st_a ''d1'')"
    by blast
  from kept h2 have "map_option (map n_id \<circ> nodes)
        (db (snd (put_mindmap env0 alice_req ''d1'' ?b st_a)) ''d1'')
      = (case b_nodes ?b of
           None \<Rightarrow> map_option (map n_id \<circ> nodes) (db st_a ''d1'')
         | Some ns \<Rightarrow> Some (map in_id ns))"
    by blast
  then have 3: "map_option (map n_id \<circ> nodes)
        (db (snd (put_mindmap env0 alice_req ''d1'' ?b st_a)) ''d1'')
      = Some (map in_id (map clean_node [central_idea, idea_node]))"
    by (simp only: b option.case)
  have ids: "map in_id (map clean_node [central_idea, idea_node]) = [''root'', ''n1'']"
    by (simp add: clean_node_def central_idea_def idea_node_def)
  have old: "map_option (map n_id \<circ> nodes) (db st_a ''d1'') = Some [''root'']"
    by (simp add: d1 demo_fields root_node_def)
  show ?thesis
    unfolding 1 2 3 ids old k using dn h1 h2 by simp
qed

subsection \<open>References in the presence table\<close>

lemma refs_fresh_init: "refs_fresh init_state"
  by (simp add: refs_fresh_def init_state_def)

lemma refs_fresh_connect: "refs_fresh st \<Longrightarrow> refs_fresh (connect s uid uname st)"
  by (simp add: refs_fresh_def connect_def)

lemma set_add_subset: "set (set_add obj us) \<subseteq> insert obj (set us)"
  by (auto simp: set_add_def)

lemma refs_fresh_join: "refs_fresh st \<Longrightarrow> refs_fresh (join_mindmap e s d st)"
proof -
  assume f: "refs_fresh st"
  have "fst obj < Suc (next_ref st)"
    if "obj \<in> set (set_add (next_ref st, me) us)" "\<forall>obj\<in>set us. fst obj < next_ref st"
    for obj :: "ref \<times> active_user" and me us
    using that set_add_subset [of "(next_ref st, me)" us] by (auto simp: less_Suc_eq)
  with f show ?thesis
    unfolding refs_fresh_def join_mindmap_def
    by (auto simp: socket_emit_def socket_to_emit_def socket_join_def Let_def less_Suc_eq
        split: option.splits if_splits)
qed

lemma refs_fresh_disconnect: "refs_fresh st \<Longrightarrow> refs_fresh (disconnect s st)"
  unfolding refs_fresh_def disconnect_def
  by (auto simp: socket_to_emit_def set_delete_def Let_def less_Suc_eq
      split: option.splits if_splits)

lemma refs_fresh_node_update: "refs_fresh st \<Longrightarrow> refs_fresh (node_update e s d st)"
  unfolding refs_fresh_def node_update_def
  by (auto simp: socket_to_emit_def save_def Let_def split: option.splits)

lemma refs_fresh_cursor_move: "refs_fresh st \<Longrightarrow> refs_fresh (cursor_move s c st)"
  unfolding refs_fresh_def cursor_move_def
  by (auto simp: socket_to_emit_def split: option.splits)

lemma refs_fresh_entries:
  "refs_fresh st \<Longrightarrow> \<forall>obj\<in>set (entries st d). fst obj < next_ref st"
  by (cases "activeUsers st d") (simp_all add: refs_fresh_def entries_def)

text \<open>With fresh references, a disconnect never shortens any presence list.\<close>

lemma disconnect_keeps_entries:
  assumes "refs_fresh st"
  shows "entries (disconnect s st) d = entries st d"
proof (cases "sockets st s")
  case None
  then show ?thesis by (simp add: disconnect_def)
next
  case (Some sock)
  have del: "set_delete (next_ref st) us = us" if "activeUsers st cm = Some us" for cm us
    using assms that by (intro set_delete_fresh) (auto simp: refs_fresh_def)
  show ?thesis
  proof (cases "currentMindmap sock")
    case None
    with Some show ?thesis by (simp add: disconnect_def entries_def Let_def)
  next
    case cm: (Some cm)
    show ?thesis
    proof (cases "activeUsers st cm")
      case None
      with Some cm show ?thesis by (simp add: disconnect_def entries_def Let_def)
    next
      case us: (Some us)
      with Some cm del [OF us] show ?thesis
        by (cases us) (auto simp: disconnect_def entries_def Let_def socket_to_emit_def)
    qed
  qed
qed

subsection \<open>Refused writes\<close>

text \<open>A title of blanks is trimmed to nothing and refused; nothing is stored.\<close>

lemma put_blank_title_refused:
  "put_mindmap env0 alice_req ''d1'' (title_only blank_title) st_db
     = ((500, Err ''Server error''), st_db)"
  by (simp add: put_mindmap_def apply_body_def validates_def Let_def st_db_def init_state_def
      canEdit_def demo_fields env0_def alice_req_def title_only_def blank_title_def trim_def
      is_white_space_def)

text \<open>So is a node without text.\<close>

lemma put_empty_text_refused:
  "put_mindmap env0 alice_req ''d1'' (nodes_only [clean_node (idea_node\<lparr>v_text := []\<rparr>)]) st_db
     = ((500, Err ''Server error''), st_db)"
  by (simp add: put_mindmap_def apply_body_def validates_def valid_node_def Let_def st_db_def
      init_state_def canEdit_def demo_fields env0_def alice_req_def nodes_only_def
      clean_node_def idea_node_def process_node_def)

text \<open>When \<^verbatim>\<open>populate\<close> throws, the PUT is answered with 500 and the document is stored.\<close>

lemma put_saved_before_populate:
  assumes "db st mid = Some m" and "canEdit m (ru_id u)" and "\<not> find_throws e"
    and "\<not> save_throws e" and "validates (apply_body e u b m)" and "populate_throws e"
  shows "put_mindmap e u mid b st
           = ((500, Err ''Server error''), save mid (apply_body e u b m) st)"
  using assms by (simp add: put_mindmap_def Let_def)

text \<open>A creation time of \<open>0\<close> is replaced by the clock's reading.\<close>

lemma process_node_createdAt_zero:
  "n_createdAt (process_node e u (n\<lparr>in_createdAt := Some 0\<rparr>)) = now e"
  by (simp add: process_node_def)

text \<open>A link whose ends are node objects stays when either of its nodes is deleted.\<close>

lemma deleteNode_keeps_drawn_links:
  "ed_links (deleteNode demo_editor) = ed_links demo_editor"
  by (simp add: deleteNode_def demo_editor_def differs_def idea_node_def)

end
